theory Spec2Isabelle
  imports Main "HOL-Library.Word"
begin

unbundle bit_operations_syntax

section \<open>Data model of \<^verbatim>\<open>providers/cryptography/hmac.c\<close>\<close>

text \<open>
  The file computes an HMAC through the OpenSSL primitives and writes it into a magma
  \<^verbatim>\<open>stringer_t\<close>. Machine types: \<^verbatim>\<open>uint_t\<close>, \<^verbatim>\<open>int_t\<close> and \<^verbatim>\<open>int\<close> are 32 bits wide (an
  \<^verbatim>\<open>int_t\<close> is read with \<open>sint\<close>), \<^verbatim>\<open>size_t\<close> is 64 bits wide. Sizes stored in a stringer
  are natural numbers. A pointer is an \<open>option\<close>: \<open>None\<close> is \<^verbatim>\<open>NULL\<close>, \<open>Some b\<close> points
  to the object \<open>b\<close>. The pointers \<^verbatim>\<open>s\<close>, \<^verbatim>\<open>key\<close> and \<^verbatim>\<open>output\<close> are passed by value of the
  object they point to; the code reads \<^verbatim>\<open>s\<close> and \<^verbatim>\<open>key\<close> only before its first write
  to \<^verbatim>\<open>output\<close>, so the result for \<^verbatim>\<open>output\<close> is the same when they alias.
\<close>

type_synonym byte = "8 word"
type_synonym uint_t = "32 word"
type_synonym int_t = "32 word"
type_synonym digest_t = nat

text \<open>
  Modelled from the spec: the type \<^verbatim>\<open>stringer_t\<close> is declared outside this file. A stringer
  has the option flags of its header (the first 32 bits of the object), a length (the bytes
  considered valid), a capacity (the bytes allocated) and its data region.
\<close>

record stringer =
  st_opts :: "32 word"
  st_length :: nat
  st_avail :: nat
  st_data :: "byte list"

text \<open>
  Modelled from the spec: the accessors \<^verbatim>\<open>st_length_get\<close>, \<^verbatim>\<open>st_avail_get\<close>,
  \<^verbatim>\<open>st_data_get\<close>, \<^verbatim>\<open>st_length_set\<close> and the test \<^verbatim>\<open>st_empty\<close> (absent or of length
  zero) are defined outside this file. They take the pointer, as in C; on \<^verbatim>\<open>NULL\<close> the
  getters give 0 and the empty region, and every use below is behind \<^verbatim>\<open>st_empty\<close> or a
  \<^verbatim>\<open>NULL\<close> test.
\<close>

definition st_length_get :: "stringer option \<Rightarrow> nat" where
  "st_length_get p = (case p of None \<Rightarrow> 0 | Some b \<Rightarrow> st_length b)"

definition st_avail_get :: "stringer option \<Rightarrow> nat" where
  "st_avail_get p = (case p of None \<Rightarrow> 0 | Some b \<Rightarrow> st_avail b)"

definition st_data_get :: "stringer option \<Rightarrow> byte list" where
  "st_data_get p = (case p of None \<Rightarrow> [] | Some b \<Rightarrow> st_data b)"

definition st_empty :: "stringer option \<Rightarrow> bool" where
  "st_empty p = (case p of None \<Rightarrow> True | Some b \<Rightarrow> st_length b = 0)"

definition st_length_set :: "stringer \<Rightarrow> nat \<Rightarrow> stringer" where
  "st_length_set b n = b\<lparr>st_length := n\<rparr>"

text \<open>
  The conversion of an \<^verbatim>\<open>int_t\<close> to \<^verbatim>\<open>size_t\<close>, which C inserts where an \<^verbatim>\<open>int_t\<close> is
  compared with a \<^verbatim>\<open>size_t\<close> (line 93) or passed for one (lines 139 and 164): the value
  modulo \<open>2 ^ 64\<close>.
\<close>

definition size_t_of_int_t :: "int_t \<Rightarrow> nat" where
  "size_t_of_int_t x = nat (sint x mod 2 ^ 64)"

text \<open>
  The conversion of a \<^verbatim>\<open>size_t\<close> to \<^verbatim>\<open>int\<close>, which C inserts where the length of the key
  is passed for the \<^verbatim>\<open>int len\<close> of \<^verbatim>\<open>HMAC_Init_ex\<close> (line 107): the low 32 bits, read as
  a signed number. A length below \<open>2 ^ 31\<close> is passed as it is; a longer key is keyed with
  another length. The length \<^verbatim>\<open>HMAC_Update\<close> takes is a \<^verbatim>\<open>size_t\<close> and is passed as it
  is.
\<close>

definition int_of_size_t :: "nat \<Rightarrow> int" where
  "int_of_size_t n = sint (word_of_nat n :: 32 word)"

text \<open>
  \<^verbatim>\<open>HMAC_Final_d\<close> writes its bytes at the start of the region it is given; the bytes of
  the region behind them stay. Where more bytes are written than the region holds, the C
  code writes past its end; here the region grows.
\<close>

definition overwrite :: "byte list \<Rightarrow> byte list \<Rightarrow> byte list" where
  "overwrite md region = md @ drop (length md) region"

subsection \<open>The environment: flags, allocator and HMAC primitives\<close>

text \<open>
  The flag tests \<^verbatim>\<open>st_valid_avail\<close>, \<^verbatim>\<open>st_valid_destination\<close> and \<^verbatim>\<open>st_valid_tracked\<close>,
  the allocator \<^verbatim>\<open>st_alloc\<close> and the OpenSSL primitives are defined outside this file: they
  are parameters. A primitive that works on the \<^verbatim>\<open>HMAC_CTX\<close> takes the context and returns
  its return code and the context after the call. \<^verbatim>\<open>HMAC_Final_d\<close> also returns the bytes
  it wrote and the value it stored in \<^verbatim>\<open>hmac_output_size\<close>.
\<close>

record 'ctx env =
  st_valid_avail :: "32 word \<Rightarrow> bool"
  st_valid_destination :: "32 word \<Rightarrow> bool"
  st_valid_tracked :: "32 word \<Rightarrow> bool"
  st_alloc :: "nat \<Rightarrow> stringer option"
  EVP_MD_size_d :: "digest_t option \<Rightarrow> int_t"
  HMAC_CTX_init_d :: "'ctx"
  HMAC_Init_ex_d :: "'ctx \<Rightarrow> byte list \<Rightarrow> int \<Rightarrow> digest_t \<Rightarrow> int \<times> 'ctx"
  HMAC_Update_d :: "'ctx \<Rightarrow> byte list \<Rightarrow> nat \<Rightarrow> int \<times> 'ctx"
  HMAC_Final_d :: "'ctx \<Rightarrow> int \<times> byte list \<times> uint_t \<times> 'ctx"

text \<open>
  The calls a run makes to the outside, in order. A call to a primitive is recorded with
  its arguments and its return code, \<^verbatim>\<open>HMAC_Final_d\<close> with the bytes written and the
  size reported, \<^verbatim>\<open>st_alloc\<close> with the size asked for and whether it returned a buffer.
  A log call is recorded with its format string; the error string of OpenSSL that three of
  the messages carry is fetched as part of the log call.
\<close>

datatype event =
    Log_pedantic string
  | Log_error string
  | Call_HMAC_CTX_init_d
  | Call_HMAC_Init_ex_d "byte list" int digest_t int
  | Call_HMAC_Update_d "byte list" nat int
  | Call_HMAC_Final_d int "byte list" uint_t
  | Call_HMAC_CTX_cleanup_d
  | Call_st_alloc nat bool
  | Call_st_free

text \<open>
  What a call leaves behind: the pointer returned (\<^verbatim>\<open>NULL\<close> or the output stringer), the
  object the output pointer refers to as it is after the call (\<open>None\<close> when there is none:
  the pointer was \<^verbatim>\<open>NULL\<close>, or the buffer was freed), and the calls made.
\<close>

record outcome =
  ret :: "stringer option"
  output_mem :: "stringer option"
  events :: "event list"

section \<open>The functions\<close>

text \<open>Lines 26 to 37. The caller passes a pointer that is not \<^verbatim>\<open>NULL\<close>.\<close>

definition buffer_size_get :: "'ctx env \<Rightarrow> stringer \<Rightarrow> nat" where
  "buffer_size_get E buffer =
     (let opts = st_opts buffer in
      if st_valid_avail E opts then st_avail_get (Some buffer)
      else st_length_get (Some buffer))"

text \<open>The two exit labels of \<^verbatim>\<open>hmac_multi_digest_nonnull_output\<close>, lines 145 to 148.\<close>

definition error_exit :: "stringer option \<Rightarrow> event list \<Rightarrow> outcome" where
  "error_exit mem evs = \<lparr>ret = None, output_mem = mem, events = evs\<rparr>"

definition cleanup_ctx_exit :: "stringer option \<Rightarrow> event list \<Rightarrow> outcome" where
  "cleanup_ctx_exit mem evs = error_exit mem (evs @ [Call_HMAC_CTX_cleanup_d])"

text \<open>
  The loop of lines 114 to 122, from the counter \<open>i\<close> on: the result says whether every
  update returned 1, and gives the context and the calls made.
\<close>

function update_rounds ::
  "'ctx env \<Rightarrow> uint_t \<Rightarrow> uint_t \<Rightarrow> stringer option \<Rightarrow> 'ctx \<Rightarrow> event list
     \<Rightarrow> bool \<times> 'ctx \<times> event list" where
  "update_rounds E i rounds s ctx evs =
     (if i < rounds then
        (case HMAC_Update_d E ctx (st_data_get s) (st_length_get s) of
           (rc, ctx') \<Rightarrow>
             if rc \<noteq> 1 then
               (False, ctx',
                evs @ [Call_HMAC_Update_d (st_data_get s) (st_length_get s) rc,
                       Log_error ''Failed HMAC_Update_d(). {%s}''])
             else
               update_rounds E (i + 1) rounds s ctx'
                 (evs @ [Call_HMAC_Update_d (st_data_get s) (st_length_get s) rc]))
      else (True, ctx, evs))"
  by pat_completeness auto
termination
proof (relation "measure (\<lambda>(E, i, rounds, s, ctx, evs). unat rounds - unat i)")
  show "wf (measure (\<lambda>(E :: 'ctx env, i :: uint_t, rounds :: uint_t, s :: stringer option,
                        ctx :: 'ctx, evs :: event list). unat rounds - unat i))"
    by simp
next
  fix i rounds :: uint_t
  assume "i < rounds"
  then have "unat rounds - unat (i + 1) < unat rounds - unat i"
    by unat_arith
  then show "\<And>(E :: 'ctx env) s ctx evs x xa y.
       ((E, i + 1, rounds, s, y, evs @ [Call_HMAC_Update_d (st_data_get s) (st_length_get s) xa]),
        (E, i, rounds, s, ctx, evs))
       \<in> measure (\<lambda>(E, i, rounds, s, ctx, evs). unat rounds - unat i)"
    by simp
qed

declare update_rounds.simps [simp del]

text \<open>Lines 39 to 149.\<close>

definition hmac_multi_digest_nonnull_output ::
  "'ctx env \<Rightarrow> uint_t \<Rightarrow> digest_t option \<Rightarrow> stringer option \<Rightarrow> stringer option
     \<Rightarrow> stringer option \<Rightarrow> outcome" where
  "hmac_multi_digest_nonnull_output E rounds digest s key output =
     (if rounds < 1 then
        error_exit output [Log_pedantic ''rounds must be > 0'']
      else case digest of
        None \<Rightarrow> error_exit output [Log_pedantic ''Digest algorithm is NULL'']
      | Some d \<Rightarrow>
      let digest_output_size = EVP_MD_size_d E (Some d) in
      if sint digest_output_size < 1 then
        error_exit output
          [Log_pedantic ''EVP_MD_size_d() returned invalid size for digest algorithm'']
      else if st_empty s then
        error_exit output [Log_pedantic ''Input stringer 's' is NULL or empty'']
      else if st_empty key then
        error_exit output [Log_pedantic ''Key stringer 'key' is NULL or empty'']
      else (case output of
        None \<Rightarrow> error_exit output [Log_pedantic ''Input stringer 'output' is NULL'']
      | Some out \<Rightarrow>
      let opts = st_opts out in
      if \<not> st_valid_destination E opts then
        error_exit output [Log_error ''Cannot write to stringer'']
      else
      let buffer_size = buffer_size_get E out in
      if buffer_size < size_t_of_int_t digest_output_size then
        error_exit output
          [Log_error
             '''output' stringer is too small. {avail = %zu / required = %i}'']
      else
      let ctx0 = HMAC_CTX_init_d E;
          evs0 = [Call_HMAC_CTX_init_d] in
      case HMAC_Init_ex_d E ctx0 (st_data_get key) (int_of_size_t (st_length_get key)) d of
        (rc1, ctx1) \<Rightarrow>
      let evs1 = evs0 @ [Call_HMAC_Init_ex_d (st_data_get key) (int_of_size_t (st_length_get key)) d rc1] in
      if rc1 \<noteq> 1 then
        cleanup_ctx_exit output (evs1 @ [Log_error ''Failed HMAC_Init_ex_d(). {%s}''])
      else case update_rounds E 0 rounds s ctx1 evs1 of
        (updated, ctx2, evs2) \<Rightarrow>
      if \<not> updated then cleanup_ctx_exit output evs2
      else case HMAC_Final_d E ctx2 of
        (rc3, md, hmac_output_size, ctx3) \<Rightarrow>
      let written = out\<lparr>st_data := overwrite md (st_data_get output)\<rparr>;
          evs3 = evs2 @ [Call_HMAC_Final_d rc3 md hmac_output_size] in
      if rc3 \<noteq> 1 then
        cleanup_ctx_exit (Some written) (evs3 @ [Log_error ''Failed HMAC_Final_d(). {%s}''])
      else if digest_output_size \<noteq> hmac_output_size then
        cleanup_ctx_exit (Some written)
          (evs3 @ [Log_error ''HMAC output size does not match digest output size''])
      else
      let final = (if st_valid_tracked E opts
                   then st_length_set written (size_t_of_int_t digest_output_size)
                   else written) in
      \<lparr>ret = Some final, output_mem = Some final,
       events = evs3 @ [Call_HMAC_CTX_cleanup_d]\<rparr>))"

text \<open>
  Lines 151 to 188. The size is asked of the handle as it comes, and \<^verbatim>\<open>st_alloc\<close> is
  given the \<^verbatim>\<open>int_t\<close> converted to \<^verbatim>\<open>size_t\<close>.
\<close>

definition hmac_multi_digest_null_output ::
  "'ctx env \<Rightarrow> uint_t \<Rightarrow> digest_t option \<Rightarrow> stringer option \<Rightarrow> stringer option
     \<Rightarrow> outcome" where
  "hmac_multi_digest_null_output E rounds digest s key =
     (let digest_output_size = EVP_MD_size_d E digest;
          alloced_output = st_alloc E (size_t_of_int_t digest_output_size);
          evs = [Call_st_alloc (size_t_of_int_t digest_output_size) (alloced_output \<noteq> None)]
      in
      if alloced_output = None then
        \<lparr>ret = None, output_mem = None,
         events = evs @ [Log_error ''st_alloc() failed for 'output'. {requested = %i}'']\<rparr>
      else
      let r = hmac_multi_digest_nonnull_output E rounds digest s key alloced_output in
      if ret r = None then
        \<lparr>ret = None, output_mem = None, events = evs @ events r @ [Call_st_free]\<rparr>
      else
        \<lparr>ret = ret r, output_mem = output_mem r, events = evs @ events r\<rparr>)"

text \<open>Lines 201 to 227.\<close>

definition hmac_multi_digest ::
  "'ctx env \<Rightarrow> uint_t \<Rightarrow> digest_t option \<Rightarrow> stringer option \<Rightarrow> stringer option
     \<Rightarrow> stringer option \<Rightarrow> outcome" where
  "hmac_multi_digest E rounds digest s key output =
     (if output = None then hmac_multi_digest_null_output E rounds digest s key
      else hmac_multi_digest_nonnull_output E rounds digest s key output)"

text \<open>Lines 237 to 240.\<close>

definition hmac_digest ::
  "'ctx env \<Rightarrow> digest_t option \<Rightarrow> stringer option \<Rightarrow> stringer option \<Rightarrow> stringer option
     \<Rightarrow> outcome" where
  "hmac_digest E digest s key output = hmac_multi_digest E 1 digest s key output"

section \<open>The specification's terms\<close>

text \<open>
  The checks of the specification's round engine, in its order: (1) the round count is at
  least 1, (2) the algorithm handle is present and resolves to a positive output size,
  (3) the input is present and not empty, (4) the key is present and not empty, (5) the
  output is present, writable, and its effective available size is at least the output
  size. Checks 2 and 5 have one value for each way to fail.
\<close>

datatype violation =
    Rounds_below_one
  | Digest_absent
  | Digest_size_not_positive
  | Input_absent_or_empty
  | Key_absent_or_empty
  | Output_absent
  | Output_not_writable
  | Output_too_small

text \<open>The algorithm's declared output size, in bytes.\<close>

definition declared_size :: "'ctx env \<Rightarrow> digest_t option \<Rightarrow> nat" where
  "declared_size E digest = nat (sint (EVP_MD_size_d E digest))"

text \<open>
  The effective available size of the specification: the capacity if AVAILABLE is set, else
  the length.
\<close>

definition effective_size :: "'ctx env \<Rightarrow> stringer \<Rightarrow> nat" where
  "effective_size E b = (if st_valid_avail E (st_opts b) then st_avail b else st_length b)"

text \<open>The first check that fails, if one does.\<close>

definition first_violation ::
  "'ctx env \<Rightarrow> uint_t \<Rightarrow> digest_t option \<Rightarrow> stringer option \<Rightarrow> stringer option
     \<Rightarrow> stringer option \<Rightarrow> violation option" where
  "first_violation E rounds digest s key output =
     (if unat rounds < 1 then Some Rounds_below_one
      else if digest = None then Some Digest_absent
      else if sint (EVP_MD_size_d E digest) \<le> 0 then Some Digest_size_not_positive
      else if s = None \<or> st_length_get s = 0 then Some Input_absent_or_empty
      else if key = None \<or> st_length_get key = 0 then Some Key_absent_or_empty
      else case output of
        None \<Rightarrow> Some Output_absent
      | Some out \<Rightarrow>
          if \<not> st_valid_destination E (st_opts out) then Some Output_not_writable
          else if effective_size E out < declared_size E digest then Some Output_too_small
          else None)"

text \<open>The log call the code makes where a check fails.\<close>

fun log_of :: "violation \<Rightarrow> event" where
  "log_of Rounds_below_one = Log_pedantic ''rounds must be > 0''"
| "log_of Digest_absent = Log_pedantic ''Digest algorithm is NULL''"
| "log_of Digest_size_not_positive =
     Log_pedantic ''EVP_MD_size_d() returned invalid size for digest algorithm''"
| "log_of Input_absent_or_empty = Log_pedantic ''Input stringer 's' is NULL or empty''"
| "log_of Key_absent_or_empty = Log_pedantic ''Key stringer 'key' is NULL or empty''"
| "log_of Output_absent = Log_pedantic ''Input stringer 'output' is NULL''"
| "log_of Output_not_writable = Log_error ''Cannot write to stringer''"
| "log_of Output_too_small =
     Log_error '''output' stringer is too small. {avail = %zu / required = %i}''"

text \<open>Kinds of calls in a run.\<close>

fun is_init_ex_call :: "event \<Rightarrow> bool" where
  "is_init_ex_call (Call_HMAC_Init_ex_d k n d rc) = True"
| "is_init_ex_call e = False"

fun is_update_call :: "event \<Rightarrow> bool" where
  "is_update_call (Call_HMAC_Update_d m n rc) = True"
| "is_update_call e = False"

fun is_final_call :: "event \<Rightarrow> bool" where
  "is_final_call (Call_HMAC_Final_d rc md n) = True"
| "is_final_call e = False"

fun is_hmac_call :: "event \<Rightarrow> bool" where
  "is_hmac_call (Log_pedantic m) = False"
| "is_hmac_call (Log_error m) = False"
| "is_hmac_call (Call_st_alloc n b) = False"
| "is_hmac_call Call_st_free = False"
| "is_hmac_call e = True"

fun is_log :: "event \<Rightarrow> bool" where
  "is_log (Log_pedantic m) = True"
| "is_log (Log_error m) = True"
| "is_log e = False"


text \<open>A call to an HMAC primitive that did not return 1.\<close>

fun primitive_failed :: "event \<Rightarrow> bool" where
  "primitive_failed (Call_HMAC_Init_ex_d k n d rc) = (rc \<noteq> 1)"
| "primitive_failed (Call_HMAC_Update_d m n rc) = (rc \<noteq> 1)"
| "primitive_failed (Call_HMAC_Final_d rc md n) = (rc \<noteq> 1)"
| "primitive_failed e = False"

text \<open>
  The stringer \<^verbatim>\<open>hmac_multi_digest\<close> hands to the round engine: the output it was given
  or, without one, what \<^verbatim>\<open>st_alloc\<close> returned (lines 164, 170 and 209 to 223).
\<close>

definition engine_output ::
  "'ctx env \<Rightarrow> digest_t option \<Rightarrow> stringer option \<Rightarrow> stringer option" where
  "engine_output E digest output =
     (if output = None then st_alloc E (size_t_of_int_t (EVP_MD_size_d E digest))
      else output)"

text \<open>
  Whether the HMAC context is open after a sequence of calls: \<^verbatim>\<open>HMAC_CTX_init_d\<close> opens
  it, \<^verbatim>\<open>HMAC_CTX_cleanup_d\<close> releases it.
\<close>

fun ctx_step :: "bool \<Rightarrow> event \<Rightarrow> bool" where
  "ctx_step b Call_HMAC_CTX_init_d = True"
| "ctx_step b Call_HMAC_CTX_cleanup_d = False"
| "ctx_step b e = b"

definition ctx_open :: "event list \<Rightarrow> bool" where
  "ctx_open evs = foldl ctx_step False evs"

section \<open>An environment to run the functions in\<close>

text \<open>
  A small environment for concrete runs. The flags AVAILABLE, DESTINATION and TRACKED are
  the bits 1, 2 and 4 of the options. The handle \<open>d\<close> has \<open>d\<close> as its output size, and
  the absent handle the size \<open>- 1\<close>. The context holds the handle and the bytes fed so
  far; finalizing writes the first \<open>d\<close> of them (padded with zeros). The allocator gives
  a buffer of up to 64 bytes with all three flags set.
\<close>

definition example_env :: "(digest_t \<times> byte list) env" where
  "example_env =
     \<lparr>st_valid_avail = (\<lambda>opts. opts AND 1 \<noteq> 0),
      st_valid_destination = (\<lambda>opts. opts AND 2 \<noteq> 0),
      st_valid_tracked = (\<lambda>opts. opts AND 4 \<noteq> 0),
      st_alloc = (\<lambda>n. if 64 < n then None
                       else Some \<lparr>st_opts = 7, st_length = 0, st_avail = n,
                                  st_data = replicate n 0\<rparr>),
      EVP_MD_size_d = (\<lambda>digest. case digest of None \<Rightarrow> - 1 | Some d \<Rightarrow> of_nat d),
      HMAC_CTX_init_d = (0, []),
      HMAC_Init_ex_d = (\<lambda>ctx k n d. (1, (d, take (nat n) k))),
      HMAC_Update_d = (\<lambda>ctx m n. (1, (fst ctx, snd ctx @ take n m))),
      HMAC_Final_d = (\<lambda>ctx. (1, take (fst ctx) (snd ctx @ replicate (fst ctx) 0),
                              of_nat (fst ctx), ctx))\<rparr>"

text \<open>The same, but an update fails once the context holds three bytes or more.\<close>

definition example_env_update_fails :: "(digest_t \<times> byte list) env" where
  "example_env_update_fails =
     example_env\<lparr>HMAC_Update_d :=
       (\<lambda>ctx m n. if 3 \<le> length (snd ctx) then (0, ctx)
                   else (1, (fst ctx, snd ctx @ take n m)))\<rparr>"

text \<open>The same, but finalizing writes three bytes and reports the size 3.\<close>

definition example_env_short_final :: "(digest_t \<times> byte list) env" where
  "example_env_short_final =
     example_env\<lparr>HMAC_Final_d := (\<lambda>ctx. (1, [9, 9, 9], 3, ctx))\<rparr>"

definition example_input :: stringer where
  "example_input = \<lparr>st_opts = 0, st_length = 2, st_avail = 2, st_data = [97, 98]\<rparr>"

definition example_key :: stringer where
  "example_key = \<lparr>st_opts = 0, st_length = 1, st_avail = 1, st_data = [107]\<rparr>"

text \<open>A writable buffer of fixed size, not tracked, and one that is not writable.\<close>

definition example_fixed :: "nat \<Rightarrow> stringer" where
  "example_fixed n = \<lparr>st_opts = 2, st_length = n, st_avail = 0, st_data = replicate n 0\<rparr>"

definition example_readonly :: "nat \<Rightarrow> stringer" where
  "example_readonly n = \<lparr>st_opts = 0, st_length = n, st_avail = 0, st_data = replicate n 0\<rparr>"

text \<open>A writable buffer with a capacity, tracked, of length 0.\<close>

definition example_managed :: "nat \<Rightarrow> stringer" where
  "example_managed n = \<lparr>st_opts = 7, st_length = 0, st_avail = n, st_data = replicate n 0\<rparr>"

section \<open>The shape of a run\<close>

lemma size_t_of_int_t_pos: "1 \<le> sint x \<Longrightarrow> size_t_of_int_t x = nat (sint x)"
proof -
  assume "1 \<le> sint x"
  moreover have "sint x < 2 ^ 31" using sint_lt [of x] by simp
  ultimately have "sint x mod 2 ^ 64 = sint x" by simp
  then show ?thesis by (simp add: size_t_of_int_t_def)
qed


lemma int_of_size_t_wraps: "int_of_size_t (2 ^ 32 + 1) = 1"
  by (simp add: int_of_size_t_def)

lemma update_rounds_shape:
  "update_rounds E i rounds s ctx evs = (ok, ctx', evs') \<Longrightarrow>
     (ok \<and> evs' = evs @ replicate (unat rounds - unat i)
                        (Call_HMAC_Update_d (st_data_get s) (st_length_get s) 1)) \<or>
     (\<not> ok \<and> (\<exists>k rc. k < unat rounds - unat i \<and> rc \<noteq> 1 \<and>
         evs' = evs @ replicate k (Call_HMAC_Update_d (st_data_get s) (st_length_get s) 1)
                @ [Call_HMAC_Update_d (st_data_get s) (st_length_get s) rc,
                   Log_error ''Failed HMAC_Update_d(). {%s}'']))"
proof (induction E i rounds s ctx evs arbitrary: ok ctx' evs' rule: update_rounds.induct)
  case (1 E i rounds s ctx evs)
  let ?U = "\<lambda>rc. Call_HMAC_Update_d (st_data_get s) (st_length_get s) rc"
  show ?case
  proof (cases "i < rounds")
    case False
    then have "unat rounds - unat i = 0" by unat_arith
    with False "1.prems" show ?thesis
      by (simp add: update_rounds.simps [of E i rounds])
  next
    case True
    then have step: "unat rounds - unat i = Suc (unat rounds - unat (i + 1))"
      by unat_arith
    obtain rc c where upd: "HMAC_Update_d E ctx (st_data_get s) (st_length_get s) = (rc, c)"
      by (cases "HMAC_Update_d E ctx (st_data_get s) (st_length_get s)")
    show ?thesis
    proof (cases "rc = 1")
      case False
      with True upd "1.prems" have "\<not> ok" and "evs' = evs @ replicate 0 (?U 1) @ [?U rc, Log_error ''Failed HMAC_Update_d(). {%s}'']"
        by (simp_all add: update_rounds.simps [of E i rounds])
      with False step show ?thesis by (metis zero_less_Suc)
    next
      case rc1: True
      with True upd "1.prems"
      have rec: "update_rounds E (i + 1) rounds s c (evs @ [?U rc]) = (ok, ctx', evs')"
        by (simp add: update_rounds.simps [of E i rounds])
      have nn: "\<not> rc \<noteq> 1" using rc1 by simp
      from "1.IH" [OF True upd [symmetric] nn rec] rc1
      have "(ok \<and> evs' = (evs @ [?U 1]) @ replicate (unat rounds - unat (i + 1)) (?U 1)) \<or>
            (\<not> ok \<and> (\<exists>k rc. k < unat rounds - unat (i + 1) \<and> rc \<noteq> 1 \<and>
               evs' = (evs @ [?U 1]) @ replicate k (?U 1) @ [?U rc, Log_error ''Failed HMAC_Update_d(). {%s}'']))"
        by simp
      then show ?thesis
      proof
        assume "ok \<and> evs' = (evs @ [?U 1]) @ replicate (unat rounds - unat (i + 1)) (?U 1)"
        then show ?thesis by (simp add: step)
      next
        assume "\<not> ok \<and> (\<exists>k rc. k < unat rounds - unat (i + 1) \<and> rc \<noteq> 1 \<and>
               evs' = (evs @ [?U 1]) @ replicate k (?U 1) @ [?U rc, Log_error ''Failed HMAC_Update_d(). {%s}''])"
        then obtain k rc' where nok: "\<not> ok" and k: "k < unat rounds - unat (i + 1)" and rc': "rc' \<noteq> 1"
          and e: "evs' = (evs @ [?U 1]) @ replicate k (?U 1) @ [?U rc', Log_error ''Failed HMAC_Update_d(). {%s}'']"
          by blast
        from e have "evs' = evs @ replicate (Suc k) (?U 1) @ [?U rc', Log_error ''Failed HMAC_Update_d(). {%s}'']"
          by simp
        moreover from k step have "Suc k < unat rounds - unat i" by simp
        ultimately show ?thesis using nok rc' by blast
      qed
    qed
  qed
qed

lemma st_empty_iff: "st_empty p \<longleftrightarrow> p = None \<or> st_length_get p = 0"
  by (simp add: st_empty_def st_length_get_def split: option.splits)

lemma buffer_size_get_effective: "buffer_size_get E b = effective_size E b"
  by (simp add: buffer_size_get_def effective_size_def st_avail_get_def st_length_get_def)

lemma violation_outcome:
  assumes "first_violation E rounds digest s key output = Some v"
  shows "hmac_multi_digest_nonnull_output E rounds digest s key output =
           \<lparr>ret = None, output_mem = output, events = [log_of v]\<rparr>"
proof (cases "rounds = 0")
  case True
  with assms show ?thesis
    by (simp add: first_violation_def hmac_multi_digest_nonnull_output_def error_exit_def)
next
  case r: False
  then have ur: "\<not> unat rounds < 1" by (simp add: unat_eq_0)
  show ?thesis
  proof (cases digest)
    case None
    with assms r ur show ?thesis
      by (simp add: first_violation_def hmac_multi_digest_nonnull_output_def error_exit_def)
  next
    case (Some d)
    show ?thesis
    proof (cases "sint (EVP_MD_size_d E (Some d)) < 1")
      case True
      with assms r ur Some show ?thesis
        by (simp add: first_violation_def hmac_multi_digest_nonnull_output_def error_exit_def)
    next
      case sz: False
      then have conv: "size_t_of_int_t (EVP_MD_size_d E (Some d)) = declared_size E (Some d)"
        by (simp add: size_t_of_int_t_pos declared_size_def)
      from assms r ur Some sz conv show ?thesis
        by (auto simp add: first_violation_def hmac_multi_digest_nonnull_output_def
            error_exit_def st_empty_iff buffer_size_get_effective Let_def
            split: option.splits if_splits)
    qed
  qed
qed

lemma validated_outcome:
  assumes ok: "first_violation E rounds digest s key output = None"
  obtains
    (Init_failed) d out rc where
      "digest = Some d" "output = Some out" "rc \<noteq> 1"
      "hmac_multi_digest_nonnull_output E rounds digest s key output =
         \<lparr>ret = None, output_mem = output,
          events = [Call_HMAC_CTX_init_d,
                    Call_HMAC_Init_ex_d (st_data_get key) (int_of_size_t (st_length_get key)) d rc,
                    Log_error ''Failed HMAC_Init_ex_d(). {%s}'',
                    Call_HMAC_CTX_cleanup_d]\<rparr>"
  | (Update_failed) d out k rc where
      "digest = Some d" "output = Some out" "k < unat rounds" "rc \<noteq> 1"
      "hmac_multi_digest_nonnull_output E rounds digest s key output =
         \<lparr>ret = None, output_mem = output,
          events = [Call_HMAC_CTX_init_d,
                    Call_HMAC_Init_ex_d (st_data_get key) (int_of_size_t (st_length_get key)) d 1]
                   @ replicate k (Call_HMAC_Update_d (st_data_get s) (st_length_get s) 1)
                   @ [Call_HMAC_Update_d (st_data_get s) (st_length_get s) rc,
                      Log_error ''Failed HMAC_Update_d(). {%s}'',
                      Call_HMAC_CTX_cleanup_d]\<rparr>"
  | (Final_failed) d out rc md n where
      "digest = Some d" "output = Some out" "rc \<noteq> 1"
      "hmac_multi_digest_nonnull_output E rounds digest s key output =
         \<lparr>ret = None, output_mem = Some (out\<lparr>st_data := overwrite md (st_data out)\<rparr>),
          events = [Call_HMAC_CTX_init_d,
                    Call_HMAC_Init_ex_d (st_data_get key) (int_of_size_t (st_length_get key)) d 1]
                   @ replicate (unat rounds)
                       (Call_HMAC_Update_d (st_data_get s) (st_length_get s) 1)
                   @ [Call_HMAC_Final_d rc md n,
                      Log_error ''Failed HMAC_Final_d(). {%s}'',
                      Call_HMAC_CTX_cleanup_d]\<rparr>"
  | (Size_mismatch) d out md n where
      "digest = Some d" "output = Some out" "n \<noteq> EVP_MD_size_d E digest"
      "hmac_multi_digest_nonnull_output E rounds digest s key output =
         \<lparr>ret = None, output_mem = Some (out\<lparr>st_data := overwrite md (st_data out)\<rparr>),
          events = [Call_HMAC_CTX_init_d,
                    Call_HMAC_Init_ex_d (st_data_get key) (int_of_size_t (st_length_get key)) d 1]
                   @ replicate (unat rounds)
                       (Call_HMAC_Update_d (st_data_get s) (st_length_get s) 1)
                   @ [Call_HMAC_Final_d 1 md n,
                      Log_error ''HMAC output size does not match digest output size'',
                      Call_HMAC_CTX_cleanup_d]\<rparr>"
  | (Success) d out md final where
      "digest = Some d" "output = Some out"
      "final = (if st_valid_tracked E (st_opts out)
                then out\<lparr>st_length := declared_size E digest,
                         st_data := overwrite md (st_data out)\<rparr>
                else out\<lparr>st_data := overwrite md (st_data out)\<rparr>)"
      "hmac_multi_digest_nonnull_output E rounds digest s key output =
         \<lparr>ret = Some final, output_mem = Some final,
          events = [Call_HMAC_CTX_init_d,
                    Call_HMAC_Init_ex_d (st_data_get key) (int_of_size_t (st_length_get key)) d 1]
                   @ replicate (unat rounds)
                       (Call_HMAC_Update_d (st_data_get s) (st_length_get s) 1)
                   @ [Call_HMAC_Final_d 1 md (EVP_MD_size_d E digest),
                      Call_HMAC_CTX_cleanup_d]\<rparr>"
proof -
  from ok obtain d where d: "digest = Some d"
    by (cases "digest") (simp_all add: first_violation_def split: if_splits)
  from ok d obtain out where out: "output = Some out"
    by (cases "output") (simp_all add: first_violation_def split: if_splits)
  let ?sz = "EVP_MD_size_d E (Some d)"
  from ok d out have r: "\<not> rounds < 1" and sz: "\<not> sint ?sz < 1"
    and s: "\<not> st_empty s" and k: "\<not> st_empty key"
    and w: "st_valid_destination E (st_opts out)"
    and big: "\<not> effective_size E out < declared_size E (Some d)"
    by (simp_all add: first_violation_def st_empty_iff unat_eq_0 split: if_splits)
  from sz have conv: "size_t_of_int_t ?sz = declared_size E (Some d)"
    by (simp add: size_t_of_int_t_pos declared_size_def)
  let ?K = "Call_HMAC_Init_ex_d (st_data_get key) (int_of_size_t (st_length_get key)) d"
  let ?U = "Call_HMAC_Update_d (st_data_get s) (st_length_get s)"
  obtain rc1 ctx1 where init:
    "HMAC_Init_ex_d E (HMAC_CTX_init_d E) (st_data_get key) (int_of_size_t (st_length_get key)) d = (rc1, ctx1)"
    by (cases "HMAC_Init_ex_d E (HMAC_CTX_init_d E) (st_data_get key) (int_of_size_t (st_length_get key)) d")
  obtain updated ctx2 evs2 where upd:
    "update_rounds E 0 rounds s ctx1 [Call_HMAC_CTX_init_d, ?K rc1] = (updated, ctx2, evs2)"
    by (cases "update_rounds E 0 rounds s ctx1 [Call_HMAC_CTX_init_d, ?K rc1]")
  obtain rc3 md n ctx3 where fin: "HMAC_Final_d E ctx2 = (rc3, md, n, ctx3)"
    by (cases "HMAC_Final_d E ctx2")
  note defs = hmac_multi_digest_nonnull_output_def d out conv buffer_size_get_effective
    Let_def st_data_get_def [of "Some out"] cleanup_ctx_exit_def error_exit_def
  note facts = r sz s k w big init fin
  show thesis
  proof (cases "rc1 = 1")
    case False
    with facts show thesis
      by (intro Init_failed [OF d out False]) (simp add: defs)
  next
    case rc1: True
    from update_rounds_shape [OF upd]
    consider (all) "updated" "evs2 = [Call_HMAC_CTX_init_d, ?K rc1] @ replicate (unat rounds) (?U 1)"
      | (stopped) j rc where "\<not> updated" "j < unat rounds" "rc \<noteq> 1"
          "evs2 = [Call_HMAC_CTX_init_d, ?K rc1] @ replicate j (?U 1)
                  @ [?U rc, Log_error ''Failed HMAC_Update_d(). {%s}'']"
      by auto
    then show thesis
    proof cases
      case stopped
      with facts rc1 upd show thesis
        by (intro Update_failed [OF d out stopped(2,3)]) (simp add: defs)
    next
      case all
      show thesis
      proof (cases "rc3 = 1")
        case False
        with facts rc1 upd all show thesis
          by (intro Final_failed [OF d out False, of md n]) (simp add: defs)
      next
        case rc3: True
        show thesis
        proof (cases "n = ?sz")
          case False
          then have ne: "n \<noteq> EVP_MD_size_d E digest" by (simp add: d)
          from facts rc1 rc3 upd all False show thesis
            by (intro Size_mismatch [OF d out ne, of md]) (simp add: defs)
        next
          case True
          with facts rc1 rc3 upd all show thesis
            by (intro Success [OF d out refl, of md]) (simp add: defs st_length_set_def)
        qed
      qed
    qed
  qed
qed

lemma no_hmac_call_log_of: "\<not> is_hmac_call (log_of v)"
  by (cases v) simp_all

lemma empty_violation:
  "st_empty s \<or> st_empty key \<Longrightarrow> \<exists>v. first_violation E rounds digest s key output = Some v"
  by (auto simp: first_violation_def st_empty_iff)

lemma ctx_step_updates:
  "foldl ctx_step b (replicate k (Call_HMAC_Update_d m n rc)) = b"
  by (induction k) simp_all

lemma outcome_cases:
  obtains (Violation) v where "first_violation E rounds digest s key output = Some v"
      "hmac_multi_digest_nonnull_output E rounds digest s key output =
         \<lparr>ret = None, output_mem = output, events = [log_of v]\<rparr>"
  | (Validated) "first_violation E rounds digest s key output = None"
proof (cases "first_violation E rounds digest s key output")
  case None
  then show thesis by (rule Validated)
next
  case (Some v)
  from Some violation_outcome [OF Some] show thesis by (rule Violation)
qed

lemma log_of_simps:
  "log_of v \<noteq> Call_HMAC_CTX_init_d" "log_of v \<noteq> Call_HMAC_CTX_cleanup_d"
  "Call_HMAC_CTX_init_d \<noteq> log_of v" "Call_HMAC_CTX_cleanup_d \<noteq> log_of v"
  "log_of v \<noteq> Call_HMAC_Final_d rc md n" "Call_HMAC_Final_d rc md n \<noteq> log_of v"
  "\<not> is_final_call (log_of v)"
  "ctx_step b (log_of v) = b" "is_log (log_of v)"
  "log_of v \<noteq> Call_st_free" "Call_st_free \<noteq> log_of v"
  by (cases v; simp)+

lemma filter_updates:
  "filter is_init_ex_call (replicate k (Call_HMAC_Update_d m n rc)) = []"
  "filter is_final_call (replicate k (Call_HMAC_Update_d m n rc)) = []"
  "filter is_log (replicate k (Call_HMAC_Update_d m n rc)) = []"
  "length (filter is_update_call (replicate k (Call_HMAC_Update_d m n rc))) = k"
  by (induction k) simp_all

lemma nonnull_logs:
  "(ret (hmac_multi_digest_nonnull_output E rounds digest s key output) = None \<longrightarrow>
      length (filter is_log
        (events (hmac_multi_digest_nonnull_output E rounds digest s key output))) = 1) \<and>
   (ret (hmac_multi_digest_nonnull_output E rounds digest s key output) \<noteq> None \<longrightarrow>
      filter is_log
        (events (hmac_multi_digest_nonnull_output E rounds digest s key output)) = [] \<and>
      output_mem (hmac_multi_digest_nonnull_output E rounds digest s key output) =
        ret (hmac_multi_digest_nonnull_output E rounds digest s key output))"
proof (cases rule: outcome_cases [of E rounds digest s key "output"])
  case (Violation v)
  then show ?thesis by (simp add: log_of_simps)
next
  case Validated
  then show ?thesis
    by (cases rule: validated_outcome) (simp_all add: filter_updates)
qed

lemma primitive_failed_log_of: "\<not> primitive_failed (log_of v)"
  by (cases v) simp_all

lemma nonnull_failure_kinds:
  "(\<forall>v. first_violation E rounds digest s key output = Some v \<longrightarrow>
      ret (hmac_multi_digest_nonnull_output E rounds digest s key output) = None) \<and>
   (\<forall>e \<in> set (events (hmac_multi_digest_nonnull_output E rounds digest s key output)).
      primitive_failed e \<longrightarrow>
      ret (hmac_multi_digest_nonnull_output E rounds digest s key output) = None) \<and>
   (\<forall>rc md n.
      Call_HMAC_Final_d rc md n
        \<in> set (events (hmac_multi_digest_nonnull_output E rounds digest s key output)) \<and>
      n \<noteq> EVP_MD_size_d E digest \<longrightarrow>
      ret (hmac_multi_digest_nonnull_output E rounds digest s key output) = None) \<and>
   (ret (hmac_multi_digest_nonnull_output E rounds digest s key output) = None \<longrightarrow>
      first_violation E rounds digest s key output \<noteq> None \<or>
      (\<exists>e \<in> set (events (hmac_multi_digest_nonnull_output E rounds digest s key output)).
         primitive_failed e) \<or>
      (\<exists>rc md n.
         Call_HMAC_Final_d rc md n
           \<in> set (events (hmac_multi_digest_nonnull_output E rounds digest s key output)) \<and>
         n \<noteq> EVP_MD_size_d E digest))"
proof (cases rule: outcome_cases [of E rounds digest s key "output"])
  case (Violation v)
  then show ?thesis by (simp add: log_of_simps primitive_failed_log_of)
next
  case Validated
  then show ?thesis
  proof (cases rule: validated_outcome)
    case (Init_failed d out rc)
    then show ?thesis by simp
  next
    case (Update_failed d out k rc)
    then show ?thesis by simp
  next
    case (Final_failed d out rc md n)
    then show ?thesis by simp
  next
    case (Size_mismatch d out md n)
    then show ?thesis by auto
  next
    case (Success d out md final)
    with Validated show ?thesis by auto
  qed
qed

lemma nonnull_no_free:
  "Call_st_free \<notin> set (events (hmac_multi_digest_nonnull_output E rounds digest s key output))"
proof (cases rule: outcome_cases [of E rounds digest s key "output"])
  case (Violation v)
  then show ?thesis by (simp add: log_of_simps)
next
  case Validated
  then show ?thesis
    by (cases rule: validated_outcome) simp_all
qed

lemma nonnull_success_shape:
  assumes "ret (hmac_multi_digest_nonnull_output E rounds digest s key (Some b)) \<noteq> None"
  shows "\<exists>md. ret (hmac_multi_digest_nonnull_output E rounds digest s key (Some b)) =
           Some (if st_valid_tracked E (st_opts b)
                 then b\<lparr>st_length := declared_size E digest,
                        st_data := overwrite md (st_data b)\<rparr>
                 else b\<lparr>st_data := overwrite md (st_data b)\<rparr>)"
proof (cases rule: outcome_cases [of E rounds digest s key "Some b"])
  case (Violation v)
  with assms show ?thesis by simp
next
  case Validated
  then show ?thesis using assms
    by (cases rule: validated_outcome) auto
qed

section \<open>The runs of the examples\<close>

lemmas example_defs =
  example_env_def example_env_update_fails_def example_env_short_final_def
  example_input_def example_key_def example_fixed_def example_readonly_def
  example_managed_def

lemmas run_defs =
  hmac_multi_digest_nonnull_output_def st_length_get_def st_data_get_def st_avail_get_def
  st_empty_def buffer_size_get_def size_t_of_int_t_def int_of_size_t_def
  update_rounds.simps overwrite_def
  error_exit_def cleanup_ctx_exit_def st_length_set_def Let_def

lemmas spec_defs = first_violation_def effective_size_def declared_size_def st_length_get_def

lemma run_fixed_5:
  "hmac_multi_digest_nonnull_output example_env 3 (Some 4) (Some example_input)
     (Some example_key) (Some (example_fixed 5)) =
   \<lparr>ret = Some \<lparr>st_opts = 2, st_length = 5, st_avail = 0, st_data = [107, 97, 98, 97, 0]\<rparr>,
    output_mem =
      Some \<lparr>st_opts = 2, st_length = 5, st_avail = 0, st_data = [107, 97, 98, 97, 0]\<rparr>,
    events =
      [Call_HMAC_CTX_init_d, Call_HMAC_Init_ex_d [107] 1 4 1,
       Call_HMAC_Update_d [97, 98] 2 1, Call_HMAC_Update_d [97, 98] 2 1,
       Call_HMAC_Update_d [97, 98] 2 1, Call_HMAC_Final_d 1 [107, 97, 98, 97] 4,
       Call_HMAC_CTX_cleanup_d]\<rparr>"
  by (simp add: run_defs example_defs)

lemma run_fixed_4:
  "hmac_multi_digest_nonnull_output example_env 3 (Some 4) (Some example_input)
     (Some example_key) (Some (example_fixed 4)) =
   \<lparr>ret = Some \<lparr>st_opts = 2, st_length = 4, st_avail = 0, st_data = [107, 97, 98, 97]\<rparr>,
    output_mem =
      Some \<lparr>st_opts = 2, st_length = 4, st_avail = 0, st_data = [107, 97, 98, 97]\<rparr>,
    events =
      [Call_HMAC_CTX_init_d, Call_HMAC_Init_ex_d [107] 1 4 1,
       Call_HMAC_Update_d [97, 98] 2 1, Call_HMAC_Update_d [97, 98] 2 1,
       Call_HMAC_Update_d [97, 98] 2 1, Call_HMAC_Final_d 1 [107, 97, 98, 97] 4,
       Call_HMAC_CTX_cleanup_d]\<rparr>"
  by (simp add: run_defs example_defs)

lemma run_managed_4:
  "hmac_multi_digest_nonnull_output example_env 3 (Some 4) (Some example_input)
     (Some example_key) (Some (example_managed 4)) =
   \<lparr>ret = Some \<lparr>st_opts = 7, st_length = 4, st_avail = 4, st_data = [107, 97, 98, 97]\<rparr>,
    output_mem =
      Some \<lparr>st_opts = 7, st_length = 4, st_avail = 4, st_data = [107, 97, 98, 97]\<rparr>,
    events =
      [Call_HMAC_CTX_init_d, Call_HMAC_Init_ex_d [107] 1 4 1,
       Call_HMAC_Update_d [97, 98] 2 1, Call_HMAC_Update_d [97, 98] 2 1,
       Call_HMAC_Update_d [97, 98] 2 1, Call_HMAC_Final_d 1 [107, 97, 98, 97] 4,
       Call_HMAC_CTX_cleanup_d]\<rparr>"
  by (simp add: run_defs example_defs)

lemma run_fixed_3:
  "hmac_multi_digest_nonnull_output example_env 3 (Some 4) (Some example_input)
     (Some example_key) (Some (example_fixed 3)) =
   \<lparr>ret = None, output_mem = Some (example_fixed 3),
    events =
      [Log_error '''output' stringer is too small. {avail = %zu / required = %i}'']\<rparr>"
  by (simp add: run_defs example_defs)

lemma run_short_final:
  "hmac_multi_digest_nonnull_output example_env_short_final 3 (Some 4) (Some example_input)
     (Some example_key) (Some (example_fixed 4)) =
   \<lparr>ret = None,
    output_mem = Some \<lparr>st_opts = 2, st_length = 4, st_avail = 0, st_data = [9, 9, 9, 0]\<rparr>,
    events =
      [Call_HMAC_CTX_init_d, Call_HMAC_Init_ex_d [107] 1 4 1,
       Call_HMAC_Update_d [97, 98] 2 1, Call_HMAC_Update_d [97, 98] 2 1,
       Call_HMAC_Update_d [97, 98] 2 1, Call_HMAC_Final_d 1 [9, 9, 9] 3,
       Log_error ''HMAC output size does not match digest output size'',
       Call_HMAC_CTX_cleanup_d]\<rparr>"
  by (simp add: run_defs example_defs)

lemma run_update_fails:
  "hmac_multi_digest_nonnull_output example_env_update_fails 3 (Some 4) (Some example_input)
     (Some example_key) (Some (example_fixed 4)) =
   \<lparr>ret = None, output_mem = Some (example_fixed 4),
    events =
      [Call_HMAC_CTX_init_d, Call_HMAC_Init_ex_d [107] 1 4 1,
       Call_HMAC_Update_d [97, 98] 2 1, Call_HMAC_Update_d [97, 98] 2 0,
       Log_error ''Failed HMAC_Update_d(). {%s}'',
       Call_HMAC_CTX_cleanup_d]\<rparr>"
  by (simp add: run_defs example_defs)

lemma example_fixed_expand:
  "example_fixed 4 = \<lparr>st_opts = 2, st_length = 4, st_avail = 0, st_data = [0, 0, 0, 0]\<rparr>"
  by (simp add: example_fixed_def numeral_eq_Suc)


lemma run_rounds_0:
  "hmac_multi_digest_nonnull_output example_env 0 (Some 4) (Some example_input)
     (Some example_key) (Some (example_fixed 4)) =
   \<lparr>ret = None, output_mem = Some (example_fixed 4),
    events = [Log_pedantic ''rounds must be > 0'']\<rparr>"
  by (simp add: run_defs example_defs)

lemma run_readonly:
  "hmac_multi_digest_nonnull_output example_env 3 (Some 4) (Some example_input)
     (Some example_key) (Some (example_readonly 4)) =
   \<lparr>ret = None, output_mem = Some (example_readonly 4),
    events = [Log_error ''Cannot write to stringer'']\<rparr>"
  by (simp add: run_defs example_defs)

lemma run_update_fails_managed:
  "hmac_multi_digest_nonnull_output example_env_update_fails 3 (Some 4) (Some example_input)
     (Some example_key) (Some (example_managed 4)) =
   \<lparr>ret = None, output_mem = Some (example_managed 4),
    events =
      [Call_HMAC_CTX_init_d, Call_HMAC_Init_ex_d [107] 1 4 1,
       Call_HMAC_Update_d [97, 98] 2 1, Call_HMAC_Update_d [97, 98] 2 0,
       Log_error ''Failed HMAC_Update_d(). {%s}'',
       Call_HMAC_CTX_cleanup_d]\<rparr>"
  by (simp add: run_defs example_defs)

lemma alloc_4:
  "st_alloc example_env (size_t_of_int_t (EVP_MD_size_d example_env (Some 4))) =
     Some (example_managed 4)"
  "st_alloc example_env_update_fails
     (size_t_of_int_t (EVP_MD_size_d example_env_update_fails (Some 4))) =
     Some (example_managed 4)"
  "size_t_of_int_t (EVP_MD_size_d example_env (Some 4)) = 4"
  "size_t_of_int_t (EVP_MD_size_d example_env_update_fails (Some 4)) = 4"
  by (simp_all add: example_defs size_t_of_int_t_def)

lemma alloc_100:
  "st_alloc example_env (size_t_of_int_t (EVP_MD_size_d example_env (Some 100))) = None"
  "size_t_of_int_t (EVP_MD_size_d example_env (Some 100)) = 100"
  by (simp_all add: example_defs size_t_of_int_t_def)

section \<open>The round protocol\<close>




section \<open>The size of the allocation\<close>

text \<open>
  Claim C2 says that, with \<^verbatim>\<open>output\<close> absent, a handle that is absent or reports a size
  that is not positive makes the call fail at once, with no allocation. The code asks
  \<^verbatim>\<open>st_alloc\<close> first, with the size as reported: for the absent handle, whose size is
  \<open>- 1\<close> here, it asks for \<open>2 ^ 64 - 1\<close> bytes and reports the allocation failure; for
  a handle of size 0 it gets a buffer, the round engine then rejects the size, and the
  buffer is freed.
\<close>

theorem allocation_before_validation:
  "hmac_multi_digest example_env 1 None (Some example_input) (Some example_key) None =
     \<lparr>ret = None, output_mem = None,
      events = [Call_st_alloc 18446744073709551615 False,
                Log_error ''st_alloc() failed for 'output'. {requested = %i}'']\<rparr> \<and>
   hmac_multi_digest example_env 1 (Some 0) (Some example_input) (Some example_key) None =
     \<lparr>ret = None, output_mem = None,
      events = [Call_st_alloc 0 True,
                Log_pedantic ''EVP_MD_size_d() returned invalid size for digest algorithm'',
                Call_st_free]\<rparr>"
  by (simp add: hmac_multi_digest_def hmac_multi_digest_null_output_def run_defs example_defs)

section \<open>The capacity check\<close>

text \<open>
  Claim C3. The size \<^verbatim>\<open>buffer_size_get\<close> gives for an output buffer is its capacity when
  AVAILABLE is set and its length otherwise. For a call that has passed the checks before
  it (round count, handle and size, input, key, output present and writable), the capacity
  check passes, and the protocol starts with \<^verbatim>\<open>HMAC_CTX_init_d\<close>, when that size is at
  least the declared output size; when it is smaller the call returns \<^verbatim>\<open>NULL\<close> having
  only logged that the buffer is too small, with no HMAC call and the output as it was.
\<close>

theorem capacity_check:
  assumes "0 < rounds" and "digest = Some d" and "0 < sint (EVP_MD_size_d E digest)"
    and "\<not> st_empty s" and "\<not> st_empty key"
    and "output = Some out" and "st_valid_destination E (st_opts out)"
  shows "buffer_size_get E out =
           (if st_valid_avail E (st_opts out) then st_avail out else st_length out) \<and>
         (declared_size E digest \<le> buffer_size_get E out \<longrightarrow>
            hd (events (hmac_multi_digest_nonnull_output E rounds digest s key output)) =
              Call_HMAC_CTX_init_d) \<and>
         (buffer_size_get E out < declared_size E digest \<longrightarrow>
            hmac_multi_digest_nonnull_output E rounds digest s key output =
              \<lparr>ret = None, output_mem = output,
               events = [Log_error
                 '''output' stringer is too small. {avail = %zu / required = %i}'']\<rparr>)"
proof (intro conjI impI)
  show "buffer_size_get E out =
           (if st_valid_avail E (st_opts out) then st_avail out else st_length out)"
    by (simp add: buffer_size_get_effective effective_size_def)
  from assms have nz: "\<not> unat rounds < 1"
    by (simp add: unat_gt_0)
  from assms nz have fv: "first_violation E rounds digest s key output =
      (if effective_size E out < declared_size E digest then Some Output_too_small else None)"
    by (simp add: first_violation_def st_empty_iff)
  {
    assume "declared_size E digest \<le> buffer_size_get E out"
    with fv have "first_violation E rounds digest s key output = None"
      by (simp add: buffer_size_get_effective)
    then show "hd (events (hmac_multi_digest_nonnull_output E rounds digest s key output)) =
              Call_HMAC_CTX_init_d"
      by (cases rule: validated_outcome) simp_all
  }
  {
    assume "buffer_size_get E out < declared_size E digest"
    with fv have "first_violation E rounds digest s key output = Some Output_too_small"
      by (simp add: buffer_size_get_effective)
    from violation_outcome [OF this]
    show "hmac_multi_digest_nonnull_output E rounds digest s key output =
              \<lparr>ret = None, output_mem = output,
               events = [Log_error
                 '''output' stringer is too small. {avail = %zu / required = %i}'']\<rparr>"
      by simp
  }
qed

text \<open>
  Runs for C3, with an output size of 4: a fixed buffer of length 4 and a buffer of capacity
  4 and length 0 have the effective size 4, and the first starts the protocol; a fixed
  buffer of length 3 fails with no HMAC call.
\<close>

theorem capacity_check_witness:
  "buffer_size_get example_env (example_fixed 4) = 4 \<and>
   buffer_size_get example_env (example_managed 4) = 4 \<and>
   declared_size example_env (Some 4) = 4 \<and>
   hd (events (hmac_multi_digest_nonnull_output example_env 3 (Some 4) (Some example_input)
                 (Some example_key) (Some (example_fixed 4)))) = Call_HMAC_CTX_init_d \<and>
   buffer_size_get example_env (example_fixed 3) = 3 \<and>
   ret (hmac_multi_digest_nonnull_output example_env 3 (Some 4) (Some example_input)
          (Some example_key) (Some (example_fixed 3))) = None \<and>
   filter is_hmac_call
     (events (hmac_multi_digest_nonnull_output example_env 3 (Some 4) (Some example_input)
                (Some example_key) (Some (example_fixed 3)))) = []"
proof -
  have pre: "0 < (3 :: uint_t)" "0 < sint (EVP_MD_size_d example_env (Some 4))"
    "\<not> st_empty (Some example_input)" "\<not> st_empty (Some example_key)"
    "st_valid_destination example_env (st_opts (example_fixed 4))"
    "st_valid_destination example_env (st_opts (example_fixed 3))"
    "st_valid_destination example_env (st_opts (example_managed 4))"
    by (simp_all add: example_defs st_empty_def)
  have sz: "declared_size example_env (Some 4) = 4"
    by (simp add: declared_size_def example_defs)
  from capacity_check [OF pre(1) refl pre(2) pre(3) pre(4) refl pre(5)]
    capacity_check [OF pre(1) refl pre(2) pre(3) pre(4) refl pre(6)]
    capacity_check [OF pre(1) refl pre(2) pre(3) pre(4) refl pre(7)]
    sz
  show ?thesis
    by (simp add: example_defs)
qed

section \<open>The length field\<close>

text \<open>
  Claim C4. When the call succeeds, the stringer returned is the output after the call, and
  its length is the declared output size if TRACKED is set and the length it had before
  if not. When the call fails, whatever the branch, the length of the output is the one
  it had before.
\<close>

theorem length_field:
  "(\<forall>fin. ret (hmac_multi_digest_nonnull_output E rounds digest s key output) = Some fin \<longrightarrow>
      output_mem (hmac_multi_digest_nonnull_output E rounds digest s key output) = Some fin \<and>
      (\<exists>out. output = Some out \<and>
         st_length fin = (if st_valid_tracked E (st_opts out) then declared_size E digest
                          else st_length out))) \<and>
   (ret (hmac_multi_digest_nonnull_output E rounds digest s key output) = None \<longrightarrow>
      map_option st_length
        (output_mem (hmac_multi_digest_nonnull_output E rounds digest s key output)) =
      map_option st_length output)"
proof (cases rule: outcome_cases [of E rounds digest s key "output"])
  case (Violation v)
  then show ?thesis by simp
next
  case Validated
  then show ?thesis
    by (cases rule: validated_outcome) simp_all
qed

text \<open>
  Runs for C4: a tracked buffer of length 0 comes back with length 4; an untracked buffer
  of length 5 keeps its length; where finalizing reports a wrong size the call fails and
  the length stays 4.
\<close>

theorem length_field_witness:
  "ret (hmac_multi_digest_nonnull_output example_env 3 (Some 4) (Some example_input)
          (Some example_key) (Some (example_managed 4))) =
     Some \<lparr>st_opts = 7, st_length = 4, st_avail = 4, st_data = [107, 97, 98, 97]\<rparr> \<and>
   st_valid_tracked example_env (st_opts (example_managed 4)) \<and>
   st_length (example_managed 4) = 0 \<and>
   ret (hmac_multi_digest_nonnull_output example_env 3 (Some 4) (Some example_input)
          (Some example_key) (Some (example_fixed 5))) =
     Some \<lparr>st_opts = 2, st_length = 5, st_avail = 0, st_data = [107, 97, 98, 97, 0]\<rparr> \<and>
   \<not> st_valid_tracked example_env (st_opts (example_fixed 5)) \<and>
   ret (hmac_multi_digest_nonnull_output example_env_short_final 3 (Some 4)
          (Some example_input) (Some example_key) (Some (example_fixed 4))) = None \<and>
   map_option st_length
     (output_mem (hmac_multi_digest_nonnull_output example_env_short_final 3 (Some 4)
        (Some example_input) (Some example_key) (Some (example_fixed 4)))) = Some 4"
  using length_field [of example_env 3 "Some 4" "Some example_input" "Some example_key"
      "Some (example_managed 4)"]
    length_field [of example_env 3 "Some 4" "Some example_input" "Some example_key"
      "Some (example_fixed 5)"]
    length_field [of example_env_short_final 3 "Some 4" "Some example_input"
      "Some example_key" "Some (example_fixed 4)"]
    run_managed_4 run_fixed_5 run_short_final
  by (simp add: example_defs)

section \<open>The validations\<close>

text \<open>
  Claim C5. \<^verbatim>\<open>hmac_multi_digest_nonnull_output\<close> makes its five checks in the order of the
  specification: when a check fails, and it is the first that does, the call returns
  \<^verbatim>\<open>NULL\<close>, leaves the output as it was, and its only call to the outside is the log
  message of that check, so that no HMAC primitive is called. When no check fails the first
  call is \<^verbatim>\<open>HMAC_CTX_init_d\<close>. An input or a key that is absent or empty makes the call
  fail without any HMAC call.
\<close>

theorem validation_order:
  "(first_violation E rounds digest s key output = Some v \<longrightarrow>
      hmac_multi_digest_nonnull_output E rounds digest s key output =
        \<lparr>ret = None, output_mem = output, events = [log_of v]\<rparr> \<and>
      filter is_hmac_call
        (events (hmac_multi_digest_nonnull_output E rounds digest s key output)) = []) \<and>
   (first_violation E rounds digest s key output = None \<longrightarrow>
      hd (events (hmac_multi_digest_nonnull_output E rounds digest s key output)) =
        Call_HMAC_CTX_init_d) \<and>
   (st_empty s \<or> st_empty key \<longrightarrow>
      ret (hmac_multi_digest_nonnull_output E rounds digest s key output) = None \<and>
      filter is_hmac_call
        (events (hmac_multi_digest_nonnull_output E rounds digest s key output)) = [])"
proof (intro conjI impI)
  assume v: "first_violation E rounds digest s key output = Some v"
  from violation_outcome [OF v]
  show "hmac_multi_digest_nonnull_output E rounds digest s key output =
        \<lparr>ret = None, output_mem = output, events = [log_of v]\<rparr>" .
  then show "filter is_hmac_call
        (events (hmac_multi_digest_nonnull_output E rounds digest s key output)) = []"
    by (simp add: no_hmac_call_log_of)
next
  assume "first_violation E rounds digest s key output = None"
  then show "hd (events (hmac_multi_digest_nonnull_output E rounds digest s key output)) =
        Call_HMAC_CTX_init_d"
    by (cases rule: validated_outcome) simp_all
next
  assume "st_empty s \<or> st_empty key"
  then obtain w where "first_violation E rounds digest s key output = Some w"
    using empty_violation by blast
  from violation_outcome [OF this]
  have "hmac_multi_digest_nonnull_output E rounds digest s key output =
        \<lparr>ret = None, output_mem = output, events = [log_of w]\<rparr>" .
  then show "ret (hmac_multi_digest_nonnull_output E rounds digest s key output) = None"
    and "filter is_hmac_call
        (events (hmac_multi_digest_nonnull_output E rounds digest s key output)) = []"
    by (simp_all add: no_hmac_call_log_of)
qed

text \<open>
  Runs for C5: a round count of 0 with every other argument wrong too reports the round
  count; an empty key fails; a call with all arguments right starts the protocol.
\<close>

theorem validation_order_witness:
  "first_violation example_env 0 None None (Some example_key) (Some (example_fixed 4))
     = Some Rounds_below_one \<and>
   hmac_multi_digest_nonnull_output example_env 0 None None (Some example_key)
       (Some (example_fixed 4))
     = \<lparr>ret = None, output_mem = Some (example_fixed 4),
        events = [Log_pedantic ''rounds must be > 0'']\<rparr> \<and>
   first_violation example_env 3 (Some 4) (Some example_input)
       (Some (example_key\<lparr>st_length := 0\<rparr>)) (Some (example_fixed 4))
     = Some Key_absent_or_empty \<and>
   st_empty (Some (example_key\<lparr>st_length := 0\<rparr>)) \<and>
   ret (hmac_multi_digest_nonnull_output example_env 3 (Some 4) (Some example_input)
          (Some (example_key\<lparr>st_length := 0\<rparr>)) (Some (example_fixed 4))) = None \<and>
   first_violation example_env 3 (Some 4) (Some example_input) (Some example_key)
       (Some (example_fixed 4)) = None \<and>
   hd (events (hmac_multi_digest_nonnull_output example_env 3 (Some 4) (Some example_input)
                 (Some example_key) (Some (example_fixed 4)))) = Call_HMAC_CTX_init_d"
proof -
  have a: "first_violation example_env 0 None None (Some example_key) (Some (example_fixed 4))
     = Some Rounds_below_one"
    by (simp add: spec_defs example_defs)
  have b: "first_violation example_env 3 (Some 4) (Some example_input)
       (Some (example_key\<lparr>st_length := 0\<rparr>)) (Some (example_fixed 4))
     = Some Key_absent_or_empty"
    by (simp add: spec_defs example_defs)
  have c: "first_violation example_env 3 (Some 4) (Some example_input) (Some example_key)
       (Some (example_fixed 4)) = None"
    by (simp add: spec_defs example_defs)
  have e: "st_empty (Some (example_key\<lparr>st_length := 0\<rparr>))"
    by (simp add: st_empty_def)
  from validation_order [of example_env 0 None None "Some example_key"
      "Some (example_fixed 4)" Rounds_below_one]
    validation_order [of example_env 3 "Some 4" "Some example_input"
      "Some (example_key\<lparr>st_length := 0\<rparr>)" "Some (example_fixed 4)" Key_absent_or_empty]
    validation_order [of example_env 3 "Some 4" "Some example_input" "Some example_key"
      "Some (example_fixed 4)"]
    a b c e
  show ?thesis by simp
qed

section \<open>The context\<close>

text \<open>
  Claim C6. At the end of every call the HMAC context is not open: where
  \<^verbatim>\<open>HMAC_CTX_init_d\<close> was called, it was called once, \<^verbatim>\<open>HMAC_CTX_cleanup_d\<close> was called
  once, and that is the last call of the run, on success and on every failure.
\<close>

theorem context_released:
  "\<not> ctx_open (events (hmac_multi_digest_nonnull_output E rounds digest s key output)) \<and>
   (Call_HMAC_CTX_init_d
      \<in> set (events (hmac_multi_digest_nonnull_output E rounds digest s key output)) \<longrightarrow>
    last (events (hmac_multi_digest_nonnull_output E rounds digest s key output)) =
      Call_HMAC_CTX_cleanup_d \<and>
    length (filter (\<lambda>e. e = Call_HMAC_CTX_init_d)
      (events (hmac_multi_digest_nonnull_output E rounds digest s key output))) = 1 \<and>
    length (filter (\<lambda>e. e = Call_HMAC_CTX_cleanup_d)
      (events (hmac_multi_digest_nonnull_output E rounds digest s key output))) = 1)"
proof (cases rule: outcome_cases [of E rounds digest s key "output"])
  case (Violation v)
  then show ?thesis by (simp add: ctx_open_def log_of_simps)
next
  case Validated
  then show ?thesis
    by (cases rule: validated_outcome) (simp_all add: ctx_open_def ctx_step_updates)
qed

text \<open>A run for C6, in which the second update fails.\<close>

theorem context_released_witness:
  "Call_HMAC_CTX_init_d
     \<in> set (events (hmac_multi_digest_nonnull_output example_env_update_fails 3 (Some 4)
                     (Some example_input) (Some example_key) (Some (example_fixed 4)))) \<and>
   last (events (hmac_multi_digest_nonnull_output example_env_update_fails 3 (Some 4)
                   (Some example_input) (Some example_key) (Some (example_fixed 4)))) =
     Call_HMAC_CTX_cleanup_d \<and>
   \<not> ctx_open (events (hmac_multi_digest_nonnull_output example_env_update_fails 3 (Some 4)
                   (Some example_input) (Some example_key) (Some (example_fixed 4))))"
  using context_released [of example_env_update_fails 3 "Some 4" "Some example_input"
      "Some example_key" "Some (example_fixed 4)"]
    run_update_fails
  by simp

section \<open>The call without an output\<close>

text \<open>
  Claim C7. With \<^verbatim>\<open>output\<close> absent: when \<^verbatim>\<open>st_alloc\<close> gives no buffer, the call logs the
  allocation failure and returns \<^verbatim>\<open>NULL\<close>, and makes no other call. When it gives a
  buffer and the round engine fails on it, the call returns \<^verbatim>\<open>NULL\<close>, its last call is
  \<^verbatim>\<open>st_free\<close>, and no buffer is left. When the round engine succeeds, the call returns
  what the engine returned, which is the allocated buffer with the bytes written (and the
  length set, if it is tracked), and \<^verbatim>\<open>st_free\<close> is not called.
\<close>

theorem allocation_path:
  "(st_alloc E (size_t_of_int_t (EVP_MD_size_d E digest)) = None \<longrightarrow>
      hmac_multi_digest E rounds digest s key None =
        \<lparr>ret = None, output_mem = None,
         events = [Call_st_alloc (size_t_of_int_t (EVP_MD_size_d E digest)) False,
                   Log_error ''st_alloc() failed for 'output'. {requested = %i}'']\<rparr>) \<and>
   (\<forall>b. st_alloc E (size_t_of_int_t (EVP_MD_size_d E digest)) = Some b \<longrightarrow>
      (ret (hmac_multi_digest_nonnull_output E rounds digest s key (Some b)) = None \<longrightarrow>
         hmac_multi_digest E rounds digest s key None =
           \<lparr>ret = None, output_mem = None,
            events = [Call_st_alloc (size_t_of_int_t (EVP_MD_size_d E digest)) True]
                     @ events (hmac_multi_digest_nonnull_output E rounds digest s key (Some b))
                     @ [Call_st_free]\<rparr>) \<and>
      (ret (hmac_multi_digest_nonnull_output E rounds digest s key (Some b)) \<noteq> None \<longrightarrow>
         hmac_multi_digest E rounds digest s key None =
           \<lparr>ret = ret (hmac_multi_digest_nonnull_output E rounds digest s key (Some b)),
            output_mem = ret (hmac_multi_digest_nonnull_output E rounds digest s key (Some b)),
            events = [Call_st_alloc (size_t_of_int_t (EVP_MD_size_d E digest)) True]
                     @ events (hmac_multi_digest_nonnull_output E rounds digest s key (Some b))\<rparr> \<and>
         Call_st_free \<notin> set (events (hmac_multi_digest E rounds digest s key None)) \<and>
         (\<exists>md. ret (hmac_multi_digest E rounds digest s key None) =
            Some (if st_valid_tracked E (st_opts b)
                  then b\<lparr>st_length := declared_size E digest,
                         st_data := overwrite md (st_data b)\<rparr>
                  else b\<lparr>st_data := overwrite md (st_data b)\<rparr>))))"
proof (intro conjI allI impI)
  assume "st_alloc E (size_t_of_int_t (EVP_MD_size_d E digest)) = None"
  then show "hmac_multi_digest E rounds digest s key None =
        \<lparr>ret = None, output_mem = None,
         events = [Call_st_alloc (size_t_of_int_t (EVP_MD_size_d E digest)) False,
                   Log_error ''st_alloc() failed for 'output'. {requested = %i}'']\<rparr>"
    by (simp add: hmac_multi_digest_def hmac_multi_digest_null_output_def)
next
  fix b
  assume "st_alloc E (size_t_of_int_t (EVP_MD_size_d E digest)) = Some b"
    and "ret (hmac_multi_digest_nonnull_output E rounds digest s key (Some b)) = None"
  then show "hmac_multi_digest E rounds digest s key None =
           \<lparr>ret = None, output_mem = None,
            events = [Call_st_alloc (size_t_of_int_t (EVP_MD_size_d E digest)) True]
                     @ events (hmac_multi_digest_nonnull_output E rounds digest s key (Some b))
                     @ [Call_st_free]\<rparr>"
    by (simp add: hmac_multi_digest_def hmac_multi_digest_null_output_def Let_def)
next
  fix b
  assume a: "st_alloc E (size_t_of_int_t (EVP_MD_size_d E digest)) = Some b"
    and r: "ret (hmac_multi_digest_nonnull_output E rounds digest s key (Some b)) \<noteq> None"
  from r nonnull_logs [of E rounds digest s key "Some b"]
  have m: "output_mem (hmac_multi_digest_nonnull_output E rounds digest s key (Some b)) =
           ret (hmac_multi_digest_nonnull_output E rounds digest s key (Some b))"
    by simp
  from a r m show q: "hmac_multi_digest E rounds digest s key None =
           \<lparr>ret = ret (hmac_multi_digest_nonnull_output E rounds digest s key (Some b)),
            output_mem = ret (hmac_multi_digest_nonnull_output E rounds digest s key (Some b)),
            events = [Call_st_alloc (size_t_of_int_t (EVP_MD_size_d E digest)) True]
                     @ events (hmac_multi_digest_nonnull_output E rounds digest s key (Some b))\<rparr>"
    by (auto simp add: hmac_multi_digest_def hmac_multi_digest_null_output_def Let_def)
  from q nonnull_no_free [of E rounds digest s key "Some b"]
  show "Call_st_free \<notin> set (events (hmac_multi_digest E rounds digest s key None))"
    by simp
  from q nonnull_success_shape [OF r]
  show "\<exists>md. ret (hmac_multi_digest E rounds digest s key None) =
            Some (if st_valid_tracked E (st_opts b)
                  then b\<lparr>st_length := declared_size E digest,
                         st_data := overwrite md (st_data b)\<rparr>
                  else b\<lparr>st_data := overwrite md (st_data b)\<rparr>)"
    by simp
qed

text \<open>
  Runs for C7: a size of 100, which the allocator refuses; a size of 4 where the second
  update fails; a size of 4 where all goes well.
\<close>

theorem allocation_path_witness:
  "st_alloc example_env (size_t_of_int_t (EVP_MD_size_d example_env (Some 100))) = None \<and>
   hmac_multi_digest example_env 3 (Some 100) (Some example_input) (Some example_key) None =
     \<lparr>ret = None, output_mem = None,
      events = [Call_st_alloc 100 False,
                Log_error ''st_alloc() failed for 'output'. {requested = %i}'']\<rparr> \<and>
   st_alloc example_env_update_fails
     (size_t_of_int_t (EVP_MD_size_d example_env_update_fails (Some 4))) =
     Some (example_managed 4) \<and>
   ret (hmac_multi_digest_nonnull_output example_env_update_fails 3 (Some 4)
          (Some example_input) (Some example_key) (Some (example_managed 4))) = None \<and>
   hmac_multi_digest example_env_update_fails 3 (Some 4) (Some example_input)
       (Some example_key) None =
     \<lparr>ret = None, output_mem = None,
      events =
        [Call_st_alloc 4 True, Call_HMAC_CTX_init_d, Call_HMAC_Init_ex_d [107] 1 4 1,
         Call_HMAC_Update_d [97, 98] 2 1, Call_HMAC_Update_d [97, 98] 2 0,
         Log_error ''Failed HMAC_Update_d(). {%s}'', Call_HMAC_CTX_cleanup_d,
         Call_st_free]\<rparr> \<and>
   st_alloc example_env (size_t_of_int_t (EVP_MD_size_d example_env (Some 4))) =
     Some (example_managed 4) \<and>
   hmac_multi_digest example_env 3 (Some 4) (Some example_input) (Some example_key) None =
     \<lparr>ret = Some \<lparr>st_opts = 7, st_length = 4, st_avail = 4, st_data = [107, 97, 98, 97]\<rparr>,
      output_mem =
        Some \<lparr>st_opts = 7, st_length = 4, st_avail = 4, st_data = [107, 97, 98, 97]\<rparr>,
      events =
        [Call_st_alloc 4 True, Call_HMAC_CTX_init_d, Call_HMAC_Init_ex_d [107] 1 4 1,
         Call_HMAC_Update_d [97, 98] 2 1, Call_HMAC_Update_d [97, 98] 2 1,
         Call_HMAC_Update_d [97, 98] 2 1, Call_HMAC_Final_d 1 [107, 97, 98, 97] 4,
         Call_HMAC_CTX_cleanup_d]\<rparr>"
  using allocation_path [of example_env "Some 100" 3 "Some example_input" "Some example_key"]
    allocation_path [of example_env_update_fails "Some 4" 3 "Some example_input"
      "Some example_key"]
    allocation_path [of example_env "Some 4" 3 "Some example_input" "Some example_key"]
    alloc_4 alloc_100 run_update_fails_managed run_managed_4
  by simp

section \<open>The size reported by finalizing\<close>

text \<open>
  Claim C8. When \<^verbatim>\<open>HMAC_Final_d\<close> reports a size that is not the declared output size of the
  algorithm, the call returns \<^verbatim>\<open>NULL\<close>; where \<^verbatim>\<open>HMAC_Final_d\<close> itself returned 1, the
  failure is logged as the size mismatch.
\<close>

theorem size_mismatch_fails:
  assumes "Call_HMAC_Final_d rc md n
             \<in> set (events (hmac_multi_digest_nonnull_output E rounds digest s key output))"
    and "n \<noteq> EVP_MD_size_d E digest"
  shows "ret (hmac_multi_digest_nonnull_output E rounds digest s key output) = None \<and>
         (rc = 1 \<longrightarrow>
            Log_error ''HMAC output size does not match digest output size''
              \<in> set (events (hmac_multi_digest_nonnull_output E rounds digest s key output)))"
proof (cases rule: outcome_cases [of E rounds digest s key "output"])
  case (Violation v)
  then show ?thesis using assms by (simp add: log_of_simps)
next
  case Validated
  then show ?thesis using assms
    by (cases rule: validated_outcome) auto
qed

text \<open>A run for C8: the output size is 4 and finalizing reports 3.\<close>

theorem size_mismatch_fails_witness:
  "Call_HMAC_Final_d 1 [9, 9, 9] 3
     \<in> set (events (hmac_multi_digest_nonnull_output example_env_short_final 3 (Some 4)
                     (Some example_input) (Some example_key) (Some (example_fixed 4)))) \<and>
   3 \<noteq> EVP_MD_size_d example_env_short_final (Some 4) \<and>
   ret (hmac_multi_digest_nonnull_output example_env_short_final 3 (Some 4)
          (Some example_input) (Some example_key) (Some (example_fixed 4))) = None \<and>
   Log_error ''HMAC output size does not match digest output size''
     \<in> set (events (hmac_multi_digest_nonnull_output example_env_short_final 3 (Some 4)
                     (Some example_input) (Some example_key) (Some (example_fixed 4))))"
proof -
  have a: "Call_HMAC_Final_d 1 [9, 9, 9] 3
     \<in> set (events (hmac_multi_digest_nonnull_output example_env_short_final 3 (Some 4)
                     (Some example_input) (Some example_key) (Some (example_fixed 4))))"
    by (simp add: run_short_final)
  have b: "3 \<noteq> EVP_MD_size_d example_env_short_final (Some 4)"
    by (simp add: example_defs)
  from size_mismatch_fails [OF a b] a b show ?thesis by simp
qed

section \<open>What the caller is told\<close>

text \<open>
  Claim C9 says that the value returned tells the kinds of failure apart. It does not: a
  round count of 0 and an output that is not writable, which fail different checks, both
  return \<^verbatim>\<open>NULL\<close>.
\<close>

theorem failure_kinds_counterexample:
  "\<not> (first_violation example_env 0 (Some 4) (Some example_input) (Some example_key)
          (Some (example_fixed 4))
        \<noteq> first_violation example_env 3 (Some 4) (Some example_input) (Some example_key)
            (Some (example_readonly 4)) \<longrightarrow>
        ret (hmac_multi_digest_nonnull_output example_env 0 (Some 4) (Some example_input)
               (Some example_key) (Some (example_fixed 4)))
        \<noteq> ret (hmac_multi_digest_nonnull_output example_env 3 (Some 4) (Some example_input)
                 (Some example_key) (Some (example_readonly 4))))"
proof -
  have "first_violation example_env 0 (Some 4) (Some example_input) (Some example_key)
          (Some (example_fixed 4)) = Some Rounds_below_one"
    and "first_violation example_env 3 (Some 4) (Some example_input) (Some example_key)
            (Some (example_readonly 4)) = Some Output_not_writable"
    by (simp_all add: spec_defs example_defs)
  then show ?thesis by (simp add: run_rounds_0 run_readonly)
qed

text \<open>
  Claim C9, amended. Every failure of \<^verbatim>\<open>hmac_multi_digest\<close> is returned as \<^verbatim>\<open>NULL\<close>, the one
  value for every kind: an allocation that fails; a check of the round engine that fails
  on the stringer handed to it (an invalid argument, an output that is not writable, an
  output that is too small); a call to an HMAC primitive that does not return 1; a size
  reported by \<^verbatim>\<open>HMAC_Final_d\<close> that is not the declared one. \<^verbatim>\<open>NULL\<close> is returned on such a
  failure only, and a call that does not return \<^verbatim>\<open>NULL\<close> returns the output.
\<close>

theorem failure_is_null:
  "(output = None \<and> st_alloc E (size_t_of_int_t (EVP_MD_size_d E digest)) = None \<longrightarrow>
      ret (hmac_multi_digest E rounds digest s key output) = None) \<and>
   (\<forall>v. first_violation E rounds digest s key (engine_output E digest output) = Some v \<longrightarrow>
      ret (hmac_multi_digest E rounds digest s key output) = None) \<and>
   (\<forall>e \<in> set (events (hmac_multi_digest E rounds digest s key output)).
      primitive_failed e \<longrightarrow> ret (hmac_multi_digest E rounds digest s key output) = None) \<and>
   (\<forall>rc md n.
      Call_HMAC_Final_d rc md n \<in> set (events (hmac_multi_digest E rounds digest s key output)) \<and>
      n \<noteq> EVP_MD_size_d E digest \<longrightarrow>
      ret (hmac_multi_digest E rounds digest s key output) = None) \<and>
   (ret (hmac_multi_digest E rounds digest s key output) = None \<longrightarrow>
      output = None \<and> st_alloc E (size_t_of_int_t (EVP_MD_size_d E digest)) = None \<or>
      first_violation E rounds digest s key (engine_output E digest output) \<noteq> None \<or>
      (\<exists>e \<in> set (events (hmac_multi_digest E rounds digest s key output)).
         primitive_failed e) \<or>
      (\<exists>rc md n.
         Call_HMAC_Final_d rc md n
           \<in> set (events (hmac_multi_digest E rounds digest s key output)) \<and>
         n \<noteq> EVP_MD_size_d E digest)) \<and>
   (ret (hmac_multi_digest E rounds digest s key output) \<noteq> None \<longrightarrow>
      output_mem (hmac_multi_digest E rounds digest s key output) =
        ret (hmac_multi_digest E rounds digest s key output))"
proof (cases "output")
  case (Some out)
  then have top: "hmac_multi_digest E rounds digest s key output =
      hmac_multi_digest_nonnull_output E rounds digest s key output"
    and eo: "engine_output E digest output = output"
    by (simp_all add: hmac_multi_digest_def engine_output_def)
  from nonnull_failure_kinds [of E rounds digest s key "output"]
    nonnull_logs [of E rounds digest s key "output"]
  show ?thesis unfolding top eo by (auto simp add: Some)
next
  case None
  show ?thesis
  proof (cases "st_alloc E (size_t_of_int_t (EVP_MD_size_d E digest))")
    case a: None
    with None show ?thesis
      by (simp add: hmac_multi_digest_def hmac_multi_digest_null_output_def)
  next
    case (Some b)
    with None have eo: "engine_output E digest output = Some b"
      by (simp add: engine_output_def)
    let ?nn = "hmac_multi_digest_nonnull_output E rounds digest s key (Some b)"
    show ?thesis
    proof (cases "ret ?nn = None")
      case True
      with None Some have top: "hmac_multi_digest E rounds digest s key output =
          \<lparr>ret = None, output_mem = None,
           events = [Call_st_alloc (size_t_of_int_t (EVP_MD_size_d E digest)) True]
                    @ events ?nn @ [Call_st_free]\<rparr>"
        by (simp add: hmac_multi_digest_def hmac_multi_digest_null_output_def Let_def)
      from nonnull_failure_kinds [of E rounds digest s key "Some b"] True
      have "first_violation E rounds digest s key (Some b) \<noteq> None \<or>
            (\<exists>e \<in> set (events ?nn). primitive_failed e) \<or>
            (\<exists>rc md n. Call_HMAC_Final_d rc md n \<in> set (events ?nn) \<and>
               n \<noteq> EVP_MD_size_d E digest)"
        by blast
      then show ?thesis unfolding top eo by auto
    next
      case False
      with None Some have top: "hmac_multi_digest E rounds digest s key output =
          \<lparr>ret = ret ?nn, output_mem = output_mem ?nn,
           events = [Call_st_alloc (size_t_of_int_t (EVP_MD_size_d E digest)) True]
                    @ events ?nn\<rparr>"
        by (auto simp add: hmac_multi_digest_def hmac_multi_digest_null_output_def Let_def)
      from nonnull_failure_kinds [of E rounds digest s key "Some b"]
        nonnull_logs [of E rounds digest s key "Some b"] False
      show ?thesis unfolding top eo by (auto simp add: None Some)
    qed
  qed
qed

text \<open>
  Runs for C9, one of each kind and a success: an allocation of 100 bytes that is refused;
  a round count of 0; an output that is not writable; an output one byte short; an update
  that returns 0; a size of 3 reported for 4. All six return \<^verbatim>\<open>NULL\<close>. The run with all
  arguments right returns the output.
\<close>

theorem failure_is_null_witness:
  "st_alloc example_env (size_t_of_int_t (EVP_MD_size_d example_env (Some 100))) = None \<and>
   ret (hmac_multi_digest example_env 3 (Some 100) (Some example_input) (Some example_key)
          None) = None \<and>
   first_violation example_env 0 (Some 4) (Some example_input) (Some example_key)
     (engine_output example_env (Some 4) (Some (example_fixed 4))) = Some Rounds_below_one \<and>
   ret (hmac_multi_digest example_env 0 (Some 4) (Some example_input) (Some example_key)
          (Some (example_fixed 4))) = None \<and>
   first_violation example_env 3 (Some 4) (Some example_input) (Some example_key)
     (engine_output example_env (Some 4) (Some (example_readonly 4)))
     = Some Output_not_writable \<and>
   ret (hmac_multi_digest example_env 3 (Some 4) (Some example_input) (Some example_key)
          (Some (example_readonly 4))) = None \<and>
   first_violation example_env 3 (Some 4) (Some example_input) (Some example_key)
     (engine_output example_env (Some 4) (Some (example_fixed 3))) = Some Output_too_small \<and>
   ret (hmac_multi_digest example_env 3 (Some 4) (Some example_input) (Some example_key)
          (Some (example_fixed 3))) = None \<and>
   Call_HMAC_Update_d [97, 98] 2 0
     \<in> set (events (hmac_multi_digest example_env_update_fails 3 (Some 4)
                     (Some example_input) (Some example_key) (Some (example_fixed 4)))) \<and>
   primitive_failed (Call_HMAC_Update_d [97, 98] 2 0) \<and>
   ret (hmac_multi_digest example_env_update_fails 3 (Some 4) (Some example_input)
          (Some example_key) (Some (example_fixed 4))) = None \<and>
   Call_HMAC_Final_d 1 [9, 9, 9] 3
     \<in> set (events (hmac_multi_digest example_env_short_final 3 (Some 4)
                     (Some example_input) (Some example_key) (Some (example_fixed 4)))) \<and>
   3 \<noteq> EVP_MD_size_d example_env_short_final (Some 4) \<and>
   ret (hmac_multi_digest example_env_short_final 3 (Some 4) (Some example_input)
          (Some example_key) (Some (example_fixed 4))) = None \<and>
   ret (hmac_multi_digest example_env 3 (Some 4) (Some example_input) (Some example_key)
          (Some (example_fixed 4))) =
     Some \<lparr>st_opts = 2, st_length = 4, st_avail = 0, st_data = [107, 97, 98, 97]\<rparr> \<and>
   output_mem (hmac_multi_digest example_env 3 (Some 4) (Some example_input)
          (Some example_key) (Some (example_fixed 4))) =
     ret (hmac_multi_digest example_env 3 (Some 4) (Some example_input) (Some example_key)
          (Some (example_fixed 4)))"
proof -
  note top = hmac_multi_digest_def engine_output_def
  have v1: "first_violation example_env 0 (Some 4) (Some example_input) (Some example_key)
     (engine_output example_env (Some 4) (Some (example_fixed 4))) = Some Rounds_below_one"
    and v2: "first_violation example_env 3 (Some 4) (Some example_input) (Some example_key)
     (engine_output example_env (Some 4) (Some (example_readonly 4)))
     = Some Output_not_writable"
    and v3: "first_violation example_env 3 (Some 4) (Some example_input) (Some example_key)
     (engine_output example_env (Some 4) (Some (example_fixed 3))) = Some Output_too_small"
    by (simp_all add: spec_defs example_defs engine_output_def)
  have u: "Call_HMAC_Update_d [97, 98] 2 0
     \<in> set (events (hmac_multi_digest example_env_update_fails 3 (Some 4)
                     (Some example_input) (Some example_key) (Some (example_fixed 4))))"
    "primitive_failed (Call_HMAC_Update_d [97, 98] 2 0)"
    by (simp_all add: top run_update_fails)
  have f: "Call_HMAC_Final_d 1 [9, 9, 9] 3
     \<in> set (events (hmac_multi_digest example_env_short_final 3 (Some 4)
                     (Some example_input) (Some example_key) (Some (example_fixed 4))))"
    by (simp add: top run_short_final)
  have f': "3 \<noteq> EVP_MD_size_d example_env_short_final (Some 4)"
    by (simp add: example_defs)
  have ok: "ret (hmac_multi_digest example_env 3 (Some 4) (Some example_input)
          (Some example_key) (Some (example_fixed 4))) =
     Some \<lparr>st_opts = 2, st_length = 4, st_avail = 0, st_data = [107, 97, 98, 97]\<rparr>"
    by (simp add: top run_fixed_4)
  from failure_is_null [of None example_env "Some 100" 3 "Some example_input"
      "Some example_key"] alloc_100
  have k1: "ret (hmac_multi_digest example_env 3 (Some 100) (Some example_input)
              (Some example_key) None) = None"
    by simp
  from failure_is_null [of "Some (example_fixed 4)" example_env "Some 4" 0
      "Some example_input" "Some example_key"] v1
  have k2: "ret (hmac_multi_digest example_env 0 (Some 4) (Some example_input)
              (Some example_key) (Some (example_fixed 4))) = None"
    by blast
  from failure_is_null [of "Some (example_readonly 4)" example_env "Some 4" 3
      "Some example_input" "Some example_key"] v2
  have k3: "ret (hmac_multi_digest example_env 3 (Some 4) (Some example_input)
              (Some example_key) (Some (example_readonly 4))) = None"
    by blast
  from failure_is_null [of "Some (example_fixed 3)" example_env "Some 4" 3
      "Some example_input" "Some example_key"] v3
  have k4: "ret (hmac_multi_digest example_env 3 (Some 4) (Some example_input)
              (Some example_key) (Some (example_fixed 3))) = None"
    by blast
  from failure_is_null [of "Some (example_fixed 4)" example_env_update_fails "Some 4" 3
      "Some example_input" "Some example_key"] u
  have k5: "ret (hmac_multi_digest example_env_update_fails 3 (Some 4) (Some example_input)
              (Some example_key) (Some (example_fixed 4))) = None"
    by blast
  from failure_is_null [of "Some (example_fixed 4)" example_env_short_final "Some 4" 3
      "Some example_input" "Some example_key"] f f'
  have k6: "ret (hmac_multi_digest example_env_short_final 3 (Some 4) (Some example_input)
              (Some example_key) (Some (example_fixed 4))) = None"
    by blast
  from failure_is_null [of "Some (example_fixed 4)" example_env "Some 4" 3
      "Some example_input" "Some example_key"] ok
  have k7: "output_mem (hmac_multi_digest example_env 3 (Some 4) (Some example_input)
          (Some example_key) (Some (example_fixed 4))) =
     ret (hmac_multi_digest example_env 3 (Some 4) (Some example_input) (Some example_key)
          (Some (example_fixed 4)))"
    by simp
  from alloc_100(1) k1 v1 k2 v2 k3 v3 k4 u k5 f f' k6 ok k7 show ?thesis
    by (intro conjI)
qed

section \<open>What a failure leaves in the output\<close>

text \<open>
  Claim C10. Where \<^verbatim>\<open>HMAC_Final_d\<close> returns 1 and reports a size that is not the declared
  one, the call returns \<^verbatim>\<open>NULL\<close> and the data region of the output holds the bytes
  \<^verbatim>\<open>HMAC_Final_d\<close> wrote, from offset 0. On every failure the length of the output is the
  one it had before; on a failure without a call to \<^verbatim>\<open>HMAC_Final_d\<close> the whole output is
  as it was.
\<close>

theorem failure_frame:
  "(Call_HMAC_Final_d 1 md n
      \<in> set (events (hmac_multi_digest_nonnull_output E rounds digest s key output)) \<and>
    n \<noteq> EVP_MD_size_d E digest \<longrightarrow>
      ret (hmac_multi_digest_nonnull_output E rounds digest s key output) = None \<and>
      (\<exists>out. output = Some out \<and>
         output_mem (hmac_multi_digest_nonnull_output E rounds digest s key output) =
           Some (out\<lparr>st_data := overwrite md (st_data out)\<rparr>))) \<and>
   (ret (hmac_multi_digest_nonnull_output E rounds digest s key output) = None \<longrightarrow>
      map_option st_length
        (output_mem (hmac_multi_digest_nonnull_output E rounds digest s key output)) =
      map_option st_length output) \<and>
   (ret (hmac_multi_digest_nonnull_output E rounds digest s key output) = None \<and>
    filter is_final_call
      (events (hmac_multi_digest_nonnull_output E rounds digest s key output)) = [] \<longrightarrow>
      output_mem (hmac_multi_digest_nonnull_output E rounds digest s key output) = output)"
proof (cases rule: outcome_cases [of E rounds digest s key "output"])
  case (Violation v)
  then show ?thesis by (simp add: log_of_simps)
next
  case Validated
  then show ?thesis
    by (cases rule: validated_outcome) auto
qed

text \<open>
  Runs for C10: where finalizing reports 3 for 4, the call fails and the region, all zeros
  before, starts with the three bytes written; where an update fails, the output is as it
  was.
\<close>

theorem failure_frame_witness:
  "Call_HMAC_Final_d 1 [9, 9, 9] 3
     \<in> set (events (hmac_multi_digest_nonnull_output example_env_short_final 3 (Some 4)
                     (Some example_input) (Some example_key) (Some (example_fixed 4)))) \<and>
   3 \<noteq> EVP_MD_size_d example_env_short_final (Some 4) \<and>
   ret (hmac_multi_digest_nonnull_output example_env_short_final 3 (Some 4)
          (Some example_input) (Some example_key) (Some (example_fixed 4))) = None \<and>
   output_mem (hmac_multi_digest_nonnull_output example_env_short_final 3 (Some 4)
          (Some example_input) (Some example_key) (Some (example_fixed 4))) =
     Some \<lparr>st_opts = 2, st_length = 4, st_avail = 0, st_data = [9, 9, 9, 0]\<rparr> \<and>
   st_data (example_fixed 4) = [0, 0, 0, 0] \<and>
   ret (hmac_multi_digest_nonnull_output example_env_update_fails 3 (Some 4)
          (Some example_input) (Some example_key) (Some (example_fixed 4))) = None \<and>
   filter is_final_call
     (events (hmac_multi_digest_nonnull_output example_env_update_fails 3 (Some 4)
                (Some example_input) (Some example_key) (Some (example_fixed 4)))) = [] \<and>
   output_mem (hmac_multi_digest_nonnull_output example_env_update_fails 3 (Some 4)
          (Some example_input) (Some example_key) (Some (example_fixed 4))) =
     Some (example_fixed 4)"
proof -
  have a: "Call_HMAC_Final_d 1 [9, 9, 9] 3
     \<in> set (events (hmac_multi_digest_nonnull_output example_env_short_final 3 (Some 4)
                     (Some example_input) (Some example_key) (Some (example_fixed 4))))"
    by (simp add: run_short_final)
  have b: "3 \<noteq> EVP_MD_size_d example_env_short_final (Some 4)"
    by (simp add: example_defs)
  have c: "ret (hmac_multi_digest_nonnull_output example_env_update_fails 3 (Some 4)
          (Some example_input) (Some example_key) (Some (example_fixed 4))) = None"
    "filter is_final_call
     (events (hmac_multi_digest_nonnull_output example_env_update_fails 3 (Some 4)
                (Some example_input) (Some example_key) (Some (example_fixed 4)))) = []"
    by (simp_all add: run_update_fails)
  have d: "overwrite [9, 9, 9] (st_data (example_fixed 4)) = [9, 9, 9, 0]"
    "st_data (example_fixed 4) = [0, 0, 0, 0]"
    by (simp_all add: overwrite_def example_fixed_expand)
  from failure_frame [of "[9, 9, 9]" 3 example_env_short_final 3 "Some 4"
      "Some example_input" "Some example_key" "Some (example_fixed 4)"]
    failure_frame [of "[]" 0 example_env_update_fails 3 "Some 4"
      "Some example_input" "Some example_key" "Some (example_fixed 4)"]
    a b c d
  show ?thesis by (simp add: example_fixed_expand)
qed

end
